theory Spec2Isabelle
  imports Main "HOL-Library.Product_Lexorder"
begin

section \<open>The linked TensorRT version\<close>

text \<open>
  \<^verbatim>\<open>src/trt_version_compat.h\<close> includes \<^verbatim>\<open>NvInferVersion.h\<close>, a header of the native
  library, for the three integer macros \<^verbatim>\<open>NV_TENSORRT_MAJOR\<close>, \<^verbatim>\<open>NV_TENSORRT_MINOR\<close> and
  \<^verbatim>\<open>NV_TENSORRT_PATCH\<close>. They are fixed per build and are the parameter of every macro below.
  Version numbers are non-negative integer literals, the preprocessor evaluates in the
  widest integer type and the macros only compare, so the components are natural numbers
  here.
\<close>

record trt_version =
  NV_TENSORRT_MAJOR :: nat
  NV_TENSORRT_MINOR :: nat
  NV_TENSORRT_PATCH :: nat

section \<open>Version helper macros (trt\_version\_compat.h)\<close>

text \<open>
  \<^verbatim>\<open>
  #define TRT_VERSION_GE(major, minor, patch)
    ((NV_TENSORRT_MAJOR > (major)) ||
     (NV_TENSORRT_MAJOR == (major) && NV_TENSORRT_MINOR > (minor)) ||
     (NV_TENSORRT_MAJOR == (major) && NV_TENSORRT_MINOR == (minor) &&
      NV_TENSORRT_PATCH >= (patch)))
  #define TRT_VERSION_LT(major, minor, patch) (!TRT_VERSION_GE(major, minor, patch))
  \<close>
\<close>

definition TRT_VERSION_GE :: "trt_version \<Rightarrow> nat \<Rightarrow> nat \<Rightarrow> nat \<Rightarrow> bool" where
  "TRT_VERSION_GE v major minor patch \<longleftrightarrow>
     (NV_TENSORRT_MAJOR v > major) \<or>
     (NV_TENSORRT_MAJOR v = major \<and> NV_TENSORRT_MINOR v > minor) \<or>
     (NV_TENSORRT_MAJOR v = major \<and> NV_TENSORRT_MINOR v = minor \<and>
      NV_TENSORRT_PATCH v \<ge> patch)"

definition TRT_VERSION_LT :: "trt_version \<Rightarrow> nat \<Rightarrow> nat \<Rightarrow> nat \<Rightarrow> bool" where
  "TRT_VERSION_LT v major minor patch \<longleftrightarrow> \<not> TRT_VERSION_GE v major minor patch"

section \<open>Feature macros (trt\_version\_compat.h)\<close>

text \<open>
  \<^verbatim>\<open>
  #if NV_TENSORRT_MAJOR >= 8
  #define TRT_NOEXCEPT noexcept
  #else
  #define TRT_NOEXCEPT
  #endif
  #ifndef IS_NOEXCEPT
  #define IS_NOEXCEPT TRT_NOEXCEPT
  #endif
  \<close>
  The macro expands to a token sequence: the keyword, or nothing.
  \<^verbatim>\<open>Int8Calibrator.h\<close> repeats the same conditional definition of \<^verbatim>\<open>TRT_NOEXCEPT\<close>.
  \<^verbatim>\<open>IS_NOEXCEPT\<close> is defined only where the including file has not defined it before
  (\<^verbatim>\<open>#ifndef\<close>): an earlier definition, the parameter \<open>predefined\<close>, is kept.
\<close>

datatype specifier = noexcept | no_specifier

definition TRT_NOEXCEPT :: "trt_version \<Rightarrow> specifier" where
  "TRT_NOEXCEPT v = (if NV_TENSORRT_MAJOR v \<ge> 8 then noexcept else no_specifier)"

definition IS_NOEXCEPT :: "specifier option \<Rightarrow> trt_version \<Rightarrow> specifier" where
  "IS_NOEXCEPT predefined v =
     (case predefined of Some earlier \<Rightarrow> earlier | None \<Rightarrow> TRT_NOEXCEPT v)"

text \<open>
  \<^verbatim>\<open>
  #define TRT_LEGACY_DESTROY (NV_TENSORRT_MAJOR < 8)
  #define TRT_HAS_WORKSPACE_SIZE_API
    (NV_TENSORRT_MAJOR < 8 || (NV_TENSORRT_MAJOR == 8 && NV_TENSORRT_MINOR < 4))
  #define TRT_HAS_DLA_SUPPORT (NV_TENSORRT_MAJOR >= 8)
  #define TRT_HAS_DYNAMIC_SHAPES (NV_TENSORRT_MAJOR >= 6)
  #define TRT_LEGACY_ENQUEUE (NV_TENSORRT_MAJOR < 8)
  \<close>
\<close>

definition TRT_LEGACY_DESTROY :: "trt_version \<Rightarrow> bool" where
  "TRT_LEGACY_DESTROY v \<longleftrightarrow> NV_TENSORRT_MAJOR v < 8"

definition TRT_HAS_WORKSPACE_SIZE_API :: "trt_version \<Rightarrow> bool" where
  "TRT_HAS_WORKSPACE_SIZE_API v \<longleftrightarrow>
     NV_TENSORRT_MAJOR v < 8 \<or> (NV_TENSORRT_MAJOR v = 8 \<and> NV_TENSORRT_MINOR v < 4)"

definition TRT_HAS_DLA_SUPPORT :: "trt_version \<Rightarrow> bool" where
  "TRT_HAS_DLA_SUPPORT v \<longleftrightarrow> NV_TENSORRT_MAJOR v \<ge> 8"

definition TRT_HAS_DYNAMIC_SHAPES :: "trt_version \<Rightarrow> bool" where
  "TRT_HAS_DYNAMIC_SHAPES v \<longleftrightarrow> NV_TENSORRT_MAJOR v \<ge> 6"

definition TRT_LEGACY_ENQUEUE :: "trt_version \<Rightarrow> bool" where
  "TRT_LEGACY_ENQUEUE v \<longleftrightarrow> NV_TENSORRT_MAJOR v < 8"

section \<open>The capability descriptor\<close>

text \<open>
  The repository has no function that builds a descriptor value: the resolution is the
  header itself, evaluated by the preprocessor for the linked version. The record below
  collects, under the specification's field names, the conditions the code branches on:
  \<^item> ownership: \<^verbatim>\<open>TRT_LEGACY_DESTROY\<close> (the deleter \<^verbatim>\<open>TrtDestroyer\<close> tests the same
    condition, \<^verbatim>\<open>#if NV_TENSORRT_MAJOR < 8\<close>);
  \<^item> enqueue signature: \<^verbatim>\<open>TRT_LEGACY_ENQUEUE\<close>;
  \<^item> workspace configuration: \<^verbatim>\<open>TRT_HAS_WORKSPACE_SIZE_API\<close>;
  \<^item> build sequence: the guard \<^verbatim>\<open>#if NV_TENSORRT_MAJOR < 8\<close> around the engine build in
    \<^verbatim>\<open>Trt.cpp\<close>, as quoted in the compatibility guide.

  The header contains no \<^verbatim>\<open>#error\<close> directive and no static assertion: every version
  triplet is resolved, none is rejected. The result type has the error the specification
  names so that this can be said.
\<close>

datatype ownership_model = ExplicitDestroy | AutomaticRelease

datatype enqueue_signature_variant = LegacyEnqueue | CurrentEnqueue

datatype workspace_config_mechanism = LegacySetter | PoolLimitAPI

datatype build_mode = BuildThenSerialize | BuildSerializedDirect

record CapabilityDescriptor =
  ownership_model :: ownership_model
  enqueue_signature_variant :: enqueue_signature_variant
  workspace_config_mechanism :: workspace_config_mechanism
  build_mode :: build_mode

datatype resolve_error = UnsupportedVersion

definition capability_descriptor :: "trt_version \<Rightarrow> CapabilityDescriptor" where
  "capability_descriptor v =
     \<lparr> ownership_model = (if TRT_LEGACY_DESTROY v then ExplicitDestroy else AutomaticRelease),
       enqueue_signature_variant = (if TRT_LEGACY_ENQUEUE v then LegacyEnqueue else CurrentEnqueue),
       workspace_config_mechanism =
         (if TRT_HAS_WORKSPACE_SIZE_API v then LegacySetter else PoolLimitAPI),
       build_mode = (if NV_TENSORRT_MAJOR v < 8 then BuildThenSerialize else BuildSerializedDirect) \<rparr>"

definition resolve :: "trt_version \<Rightarrow> resolve_error + CapabilityDescriptor" where
  "resolve v = Inr (capability_descriptor v)"

section \<open>Workspace configuration (Trt::SetWorkpaceSize)\<close>

text \<open>
  The implementation as the compatibility guide quotes it from \<^verbatim>\<open>Trt.cpp\<close>:
  \<^verbatim>\<open>
  #if !(NV_TENSORRT_MAJOR >= 8 && NV_TENSORRT_MINOR >= 4)
  void Trt::SetWorkpaceSize(size_t workspaceSize) {
      mConfig->setMaxWorkspaceSize(workspaceSize);
  }
  #endif
  \<close>
  The effect on the native builder configuration is the sequence of calls made on it.
  Where the guard is false the method is not compiled at all (\<open>None\<close>); the guide says so:
  "For TRT 8.4+, users must implement memory pool limits directly through the config
  object". The argument is passed on unchanged, so \<^verbatim>\<open>size_t\<close> is a natural number here.
\<close>

datatype MemoryPoolType = kWORKSPACE

datatype config_call =
    setMaxWorkspaceSize nat
  | setMemoryPoolLimit MemoryPoolType nat

definition SetWorkpaceSize :: "trt_version \<Rightarrow> nat \<Rightarrow> config_call list option" where
  "SetWorkpaceSize v workspaceSize =
     (if \<not> (NV_TENSORRT_MAJOR v \<ge> 8 \<and> NV_TENSORRT_MINOR v \<ge> 4)
      then Some [setMaxWorkspaceSize workspaceSize]
      else None)"

section \<open>The INT8 calibrator (Int8Calibrator.h)\<close>

text \<open>
  The header declares the class and its state; the member functions are defined in
  \<^verbatim>\<open>Int8Calibrator.cpp\<close>, which is not among the sources.
  \<^verbatim>\<open>
  class TrtInt8Calibrator : public nvinfer1::IInt8Calibrator {
    ...
    bool getBatch(void *bindings[], const char *names[], int nbBindings) TRT_NOEXCEPT override;
    const void *readCalibrationCache(size_t &length) TRT_NOEXCEPT override;
    void writeCalibrationCache(const void *cache, size_t length) TRT_NOEXCEPT override;
  #if NV_TENSORRT_MAJOR >= 10
    nvinfer1::InterfaceInfo getInterfaceInfo() const TRT_NOEXCEPT override;
  #endif
  private:
    std::string mCalibratorType;
    int mBatchSize;
    std::vector<std::string> mFileList;
    std::string mCalibrateCachePath;
    int mCurBatchIdx = 0;
    int mCount;
    std::vector<void *> mDeviceBatchData;
    std::vector<char> mCalibrationCache;
  };
  \<close>
  A device buffer is represented by the bytes staged in it.
\<close>

type_synonym bytes = "char list"

record TrtInt8Calibrator =
  mCalibratorType :: string
  mBatchSize :: int
  mFileList :: "string list"
  mCalibrateCachePath :: string
  mCurBatchIdx :: int
  mCount :: int
  mDeviceBatchData :: "bytes list"
  mCalibrationCache :: bytes

subsection \<open>The calibration data pipeline\<close>

datatype PipelineError = SampleReadFailure

text \<open>
  Modelled from the spec: the body of \<^verbatim>\<open>TrtInt8Calibrator::getBatch\<close> is missing
  (\<^verbatim>\<open>Int8Calibrator.cpp\<close>). The definition follows sections 4.5 and 8 of the
  specification:
  \<^item> "stateful, single cursor over the dataset, advancing by batchSize samples per call";
  \<^item> "returns none once the cursor would exceed dataset length (signals calibration
    completion to the caller -- this is the sole termination condition, not an error)":
    the call signals completion when the cursor has reached the end of the dataset, so
    that no sample is left to read at it, and leaves the state as it is. Section 8 fixes
    this reading: "the final batch contains the remaining L mod B (or B, if divisible)
    samples", and ten files with batch size 4 give the sizes "[4,4,2]";
  \<^item> "each call: reads batchSize samples from storage, stages them into device-resident
    buffers [...] and returns handles to those buffers": the samples from the cursor on,
    at most \<open>mBatchSize\<close> of them, fewer only in the final batch;
  \<^item> "fails with PipelineError::SampleReadFailure if an input file cannot be read or fails
    to match the expected tensor shape".

  The storage is a parameter: it maps a path to the sample read from it, or to nothing when
  the file cannot be read or has the wrong shape. The result \<open>Some samples\<close> is the
  callback's \<^verbatim>\<open>true\<close>, \<open>None\<close> is its \<^verbatim>\<open>false\<close>. The cursor and the batch size have the
  header's type \<^verbatim>\<open>int\<close>; the specification says nothing about sums beyond its range, and
  none is modelled.
\<close>

definition getBatch ::
  "(string \<Rightarrow> bytes option) \<Rightarrow> TrtInt8Calibrator \<Rightarrow>
     PipelineError + (bytes list option \<times> TrtInt8Calibrator)" where
  "getBatch storage c =
     (if mCurBatchIdx c \<ge> int (length (mFileList c)) then Inr (None, c)
      else
        (case those (map storage
                (take (nat (mBatchSize c)) (drop (nat (mCurBatchIdx c)) (mFileList c)))) of
           None \<Rightarrow> Inl SampleReadFailure
         | Some samples \<Rightarrow>
             Inr (Some samples,
                  c\<lparr> mCurBatchIdx := mCurBatchIdx c + mBatchSize c,
                     mDeviceBatchData := samples \<rparr>)))"

text \<open>
  The native builder calls the callback again and again on the same calibrator. The
  results of \<open>n\<close> successive calls, in order, and the state after them; a failed read ends
  the run.
\<close>

primrec getBatch_calls ::
  "(string \<Rightarrow> bytes option) \<Rightarrow> nat \<Rightarrow> TrtInt8Calibrator \<Rightarrow>
     PipelineError + (bytes list option list \<times> TrtInt8Calibrator)" where
  "getBatch_calls storage 0 c = Inr ([], c)"
| "getBatch_calls storage (Suc n) c =
     (case getBatch storage c of
        Inl e \<Rightarrow> Inl e
      | Inr (r, c') \<Rightarrow>
          (case getBatch_calls storage n c' of
             Inl e \<Rightarrow> Inl e
           | Inr (rs, c'') \<Rightarrow> Inr (r # rs, c'')))"

subsection \<open>A calibrator before its first call\<close>

text \<open>
  The constructor is defined in \<^verbatim>\<open>Int8Calibrator.cpp\<close>; the header's default member
  initialiser puts the cursor at 0. The concrete runs below start from this state, for a
  given batch size and file list.
\<close>

definition fresh_calibrator :: "int \<Rightarrow> string list \<Rightarrow> TrtInt8Calibrator" where
  "fresh_calibrator batchSize files =
     \<lparr> mCalibratorType = ''EntropyCalibratorV2'', mBatchSize = batchSize, mFileList = files,
       mCalibrateCachePath = ''calib.cache'', mCurBatchIdx = 0, mCount = 0,
       mDeviceBatchData = [], mCalibrationCache = [] \<rparr>"

subsection \<open>The calibration cache\<close>

text \<open>
  Modelled from the spec: the cache file and the code that reads it are missing
  (\<^verbatim>\<open>Int8Calibrator.cpp\<close>). Section 3 of the specification: the cache is "an opaque byte
  blob plus the fingerprint [...] it was produced for; persisted to a path-addressed
  store". Section 4.6 names the conditions of the store that \<open>load\<close> tells apart: it may
  be "absent" or "unreadable", or hold an entry. The store at the configured path holds one
  entry or none (absent), and can be read or not.
\<close>

record 'fp cache_store =
  readable :: bool
  entry :: "('fp \<times> bytes) option"

text \<open>
  Modelled from the spec: the body of \<^verbatim>\<open>readCalibrationCache\<close> is missing
  (\<^verbatim>\<open>Int8Calibrator.cpp\<close>). Section 4.6: "load returns none (treated as a miss, not an
  error) if the store is absent, unreadable, or its stored fingerprint does not match";
  otherwise it returns the stored blob.
\<close>

definition load :: "'fp \<Rightarrow> 'fp cache_store \<Rightarrow> bytes option" where
  "load fingerprint st =
     (if readable st then
        (case entry st of
           None \<Rightarrow> None
         | Some (stored, blob) \<Rightarrow> if stored = fingerprint then Some blob else None)
      else None)"

subsection \<open>Interface negotiation\<close>

type_synonym InterfaceInfo = "string \<times> int"

text \<open>
  Modelled from the spec: the body of \<^verbatim>\<open>TrtInt8Calibrator::getInterfaceInfo\<close> is missing
  (\<^verbatim>\<open>Int8Calibrator.cpp\<close>). The header declares the member only under
  \<^verbatim>\<open>#if NV_TENSORRT_MAJOR >= 10\<close>, without parameters and \<^verbatim>\<open>const\<close>, so it leaves the
  calibrator as it is; where the guard is false the class has no such member (\<open>None\<close>).
  The specification says it returns "a fixed (name, version) pair identifying this
  controller's protocol version -- purely declarative, no state" and does not give the
  pair, which is the parameter \<open>info\<close>.
\<close>

definition getInterfaceInfo ::
  "InterfaceInfo \<Rightarrow> trt_version \<Rightarrow> TrtInt8Calibrator \<Rightarrow> InterfaceInfo option" where
  "getInterfaceInfo info v c = (if NV_TENSORRT_MAJOR v \<ge> 10 then Some info else None)"

section \<open>Properties of the version macros\<close>

lemma TRT_VERSION_GE_iff_lex:
  "TRT_VERSION_GE v a b c \<longleftrightarrow>
     (a, b, c) \<le> (NV_TENSORRT_MAJOR v, NV_TENSORRT_MINOR v, NV_TENSORRT_PATCH v)"
  unfolding TRT_VERSION_GE_def less_eq_prod_def by auto

text \<open>
  Claim C9. For every linked version \<open>(M, m, p)\<close> and every triplet \<open>(a, b, c)\<close>,
  \<open>TRT_VERSION_GE(a, b, c)\<close> holds exactly when \<open>(M, m, p)\<close> is greater than or equal to
  \<open>(a, b, c)\<close> in the lexicographic order on (major, minor, patch), the order of
  \<open>Product_Lexorder\<close> on triples; \<open>TRT_VERSION_LT(a, b, c)\<close> is its exact negation, that is,
  it holds exactly when \<open>(M, m, p)\<close> is strictly below \<open>(a, b, c)\<close> in that order.
\<close>

theorem TRT_VERSION_GE_lexicographic:
  "(TRT_VERSION_GE v a b c \<longleftrightarrow>
      (a, b, c) \<le> (NV_TENSORRT_MAJOR v, NV_TENSORRT_MINOR v, NV_TENSORRT_PATCH v)) \<and>
   (TRT_VERSION_LT v a b c \<longleftrightarrow> \<not> TRT_VERSION_GE v a b c) \<and>
   (TRT_VERSION_LT v a b c \<longleftrightarrow>
      (NV_TENSORRT_MAJOR v, NV_TENSORRT_MINOR v, NV_TENSORRT_PATCH v) < (a, b, c))"
proof -
  have ge: "TRT_VERSION_GE v a b c \<longleftrightarrow>
      (a, b, c) \<le> (NV_TENSORRT_MAJOR v, NV_TENSORRT_MINOR v, NV_TENSORRT_PATCH v)"
    by (rule TRT_VERSION_GE_iff_lex)
  have lt: "TRT_VERSION_LT v a b c \<longleftrightarrow> \<not> TRT_VERSION_GE v a b c"
    by (simp add: TRT_VERSION_LT_def)
  have "TRT_VERSION_LT v a b c \<longleftrightarrow>
      (NV_TENSORRT_MAJOR v, NV_TENSORRT_MINOR v, NV_TENSORRT_PATCH v) < (a, b, c)"
    unfolding lt ge by (rule not_le)
  with ge lt show ?thesis by blast
qed

text \<open>
  Claim C10. For every version triplet the three switches at the major-version-8 boundary
  agree: \<open>TRT_LEGACY_DESTROY\<close> (ownership model \<open>ExplicitDestroy\<close>), \<open>TRT_LEGACY_ENQUEUE\<close>
  (the legacy enqueue signature) and the empty expansion of \<open>TRT_NOEXCEPT\<close> each hold
  exactly when the major version is below 8. The descriptor resolved for a version
  therefore never pairs a legacy value of one of these fields with a modern value of
  another.
\<close>

theorem legacy_flags_agree:
  "(TRT_LEGACY_DESTROY v \<longleftrightarrow> NV_TENSORRT_MAJOR v < 8) \<and>
   (TRT_LEGACY_ENQUEUE v \<longleftrightarrow> NV_TENSORRT_MAJOR v < 8) \<and>
   (TRT_NOEXCEPT v = no_specifier \<longleftrightarrow> NV_TENSORRT_MAJOR v < 8) \<and>
   (IS_NOEXCEPT None v = no_specifier \<longleftrightarrow> NV_TENSORRT_MAJOR v < 8) \<and>
   (ownership_model (capability_descriptor v) = ExplicitDestroy \<longleftrightarrow>
      enqueue_signature_variant (capability_descriptor v) = LegacyEnqueue) \<and>
   (ownership_model (capability_descriptor v) = ExplicitDestroy \<longleftrightarrow>
      TRT_NOEXCEPT v = no_specifier) \<and>
   (ownership_model (capability_descriptor v) = AutomaticRelease \<longleftrightarrow>
      enqueue_signature_variant (capability_descriptor v) = CurrentEnqueue) \<and>
   (ownership_model (capability_descriptor v) = AutomaticRelease \<longleftrightarrow>
      TRT_NOEXCEPT v = noexcept)"
  by (simp add: TRT_LEGACY_DESTROY_def TRT_LEGACY_ENQUEUE_def TRT_NOEXCEPT_def IS_NOEXCEPT_def
      capability_descriptor_def)

section \<open>Properties of the capability descriptor\<close>

lemma TRT_HAS_WORKSPACE_SIZE_API_iff_LT:
  "TRT_HAS_WORKSPACE_SIZE_API v \<longleftrightarrow> TRT_VERSION_LT v 8 4 0"
  unfolding TRT_HAS_WORKSPACE_SIZE_API_def TRT_VERSION_LT_def TRT_VERSION_GE_def
  by auto

text \<open>
  The specification expects an unsupported-version signal below major version 7. The
  header has none: version 6.0.0 resolves to the legacy descriptor like any other version
  below 8.
\<close>

theorem resolve_below_floor_counterexample:
  "resolve \<lparr> NV_TENSORRT_MAJOR = 6, NV_TENSORRT_MINOR = 0, NV_TENSORRT_PATCH = 0 \<rparr> =
     Inr \<lparr> ownership_model = ExplicitDestroy, enqueue_signature_variant = LegacyEnqueue,
           workspace_config_mechanism = LegacySetter, build_mode = BuildThenSerialize \<rparr>"
  by (simp add: resolve_def capability_descriptor_def TRT_LEGACY_DESTROY_def
      TRT_LEGACY_ENQUEUE_def TRT_HAS_WORKSPACE_SIZE_API_def)

text \<open>
  Claim C8, as amended. Capability resolution is a pure function of the linked library's
  version triplet and has no failure at all: for every version, those with a major
  version below 7 included, it returns the descriptor that the version determines
  (explicit destruction, the legacy enqueue signature and build-then-serialize exactly
  below major version 8; the legacy workspace setter exactly below version 8.4.0). No
  unsupported-version signal is raised.
\<close>

theorem resolve_total:
  "\<exists>d. resolve v = Inr d \<and>
     (ownership_model d = ExplicitDestroy \<longleftrightarrow> NV_TENSORRT_MAJOR v < 8) \<and>
     (enqueue_signature_variant d = LegacyEnqueue \<longleftrightarrow> NV_TENSORRT_MAJOR v < 8) \<and>
     (workspace_config_mechanism d = LegacySetter \<longleftrightarrow> TRT_VERSION_LT v 8 4 0) \<and>
     (build_mode d = BuildThenSerialize \<longleftrightarrow> NV_TENSORRT_MAJOR v < 8)"
proof -
  let ?d = "capability_descriptor v"
  have "resolve v = Inr ?d" by (simp add: resolve_def)
  moreover have "ownership_model ?d = ExplicitDestroy \<longleftrightarrow> NV_TENSORRT_MAJOR v < 8"
    by (simp add: capability_descriptor_def TRT_LEGACY_DESTROY_def)
  moreover have "enqueue_signature_variant ?d = LegacyEnqueue \<longleftrightarrow> NV_TENSORRT_MAJOR v < 8"
    by (simp add: capability_descriptor_def TRT_LEGACY_ENQUEUE_def)
  moreover have "workspace_config_mechanism ?d = LegacySetter \<longleftrightarrow> TRT_VERSION_LT v 8 4 0"
    by (simp add: capability_descriptor_def TRT_HAS_WORKSPACE_SIZE_API_iff_LT)
  moreover have "build_mode ?d = BuildThenSerialize \<longleftrightarrow> NV_TENSORRT_MAJOR v < 8"
    by (simp add: capability_descriptor_def)
  ultimately show ?thesis by blast
qed

section \<open>Properties of the workspace configuration\<close>

text \<open>
  The specification expects the pool-limit call wherever the legacy setter is not used.
  At version 8.4.0 the descriptor says \<open>PoolLimitAPI\<close>, and \<open>SetWorkpaceSize\<close> is compiled
  out: the wrapper makes no call on the configuration, and the pool limit is left to the
  user of the library.
\<close>

theorem SetWorkpaceSize_pool_limit_counterexample:
  "workspace_config_mechanism
     (capability_descriptor
        \<lparr> NV_TENSORRT_MAJOR = 8, NV_TENSORRT_MINOR = 4, NV_TENSORRT_PATCH = 0 \<rparr>) = PoolLimitAPI \<and>
   SetWorkpaceSize \<lparr> NV_TENSORRT_MAJOR = 8, NV_TENSORRT_MINOR = 4, NV_TENSORRT_PATCH = 0 \<rparr>
     1073741824 = None"
  by (simp add: capability_descriptor_def TRT_HAS_WORKSPACE_SIZE_API_def SetWorkpaceSize_def)

text \<open>
  The guard of \<open>SetWorkpaceSize\<close> tests the minor version without regard to the major
  version, so it is not the macro \<open>TRT_HAS_WORKSPACE_SIZE_API\<close>: at version 10.0.0 the macro
  is false and the method with the legacy setter is compiled all the same.
\<close>

lemma SetWorkpaceSize_guard_at_10_0_0:
  "\<not> TRT_HAS_WORKSPACE_SIZE_API
       \<lparr> NV_TENSORRT_MAJOR = 10, NV_TENSORRT_MINOR = 0, NV_TENSORRT_PATCH = 0 \<rparr> \<and>
   SetWorkpaceSize \<lparr> NV_TENSORRT_MAJOR = 10, NV_TENSORRT_MINOR = 0, NV_TENSORRT_PATCH = 0 \<rparr> ws =
     Some [setMaxWorkspaceSize ws]"
  by (simp add: TRT_HAS_WORKSPACE_SIZE_API_def SetWorkpaceSize_def)

text \<open>
  Claim C5, as amended. The legacy mechanism is indicated (\<open>TRT_HAS_WORKSPACE_SIZE_API\<close>)
  exactly for the versions lexicographically below 8.4.0. On each of them
  \<open>SetWorkpaceSize\<close> applies the workspace configuration through exactly one call, the
  legacy setter \<open>setMaxWorkspaceSize\<close>, with the requested ceiling unchanged. On every
  version with major \<open>\<ge> 8\<close> and minor \<open>\<ge> 4\<close> the method does not exist and the wrapper
  makes no call: no pool-limit call is issued by it.
\<close>

theorem SetWorkpaceSize_legacy_setter:
  "(TRT_HAS_WORKSPACE_SIZE_API v \<longleftrightarrow> TRT_VERSION_LT v 8 4 0) \<and>
   (TRT_HAS_WORKSPACE_SIZE_API v \<longrightarrow>
      SetWorkpaceSize v workspaceSize = Some [setMaxWorkspaceSize workspaceSize]) \<and>
   (NV_TENSORRT_MAJOR v \<ge> 8 \<and> NV_TENSORRT_MINOR v \<ge> 4 \<longrightarrow>
      SetWorkpaceSize v workspaceSize = None)"
proof (intro conjI impI)
  show "TRT_HAS_WORKSPACE_SIZE_API v \<longleftrightarrow> TRT_VERSION_LT v 8 4 0"
    by (rule TRT_HAS_WORKSPACE_SIZE_API_iff_LT)
next
  assume "TRT_HAS_WORKSPACE_SIZE_API v"
  then have "\<not> (NV_TENSORRT_MAJOR v \<ge> 8 \<and> NV_TENSORRT_MINOR v \<ge> 4)"
    unfolding TRT_HAS_WORKSPACE_SIZE_API_def by linarith
  then show "SetWorkpaceSize v workspaceSize = Some [setMaxWorkspaceSize workspaceSize]"
    by (simp add: SetWorkpaceSize_def)
next
  assume "NV_TENSORRT_MAJOR v \<ge> 8 \<and> NV_TENSORRT_MINOR v \<ge> 4"
  then show "SetWorkpaceSize v workspaceSize = None"
    by (simp add: SetWorkpaceSize_def)
qed

theorem SetWorkpaceSize_legacy_setter_witness:
  "SetWorkpaceSize \<lparr> NV_TENSORRT_MAJOR = 8, NV_TENSORRT_MINOR = 2, NV_TENSORRT_PATCH = 1 \<rparr>
     1073741824 = Some [setMaxWorkspaceSize 1073741824] \<and>
   SetWorkpaceSize \<lparr> NV_TENSORRT_MAJOR = 10, NV_TENSORRT_MINOR = 4, NV_TENSORRT_PATCH = 0 \<rparr>
     1073741824 = None"
proof -
  let ?old = "\<lparr> NV_TENSORRT_MAJOR = 8, NV_TENSORRT_MINOR = 2, NV_TENSORRT_PATCH = 1 \<rparr>"
  let ?new = "\<lparr> NV_TENSORRT_MAJOR = 10, NV_TENSORRT_MINOR = 4, NV_TENSORRT_PATCH = 0 \<rparr>"
  have "TRT_HAS_WORKSPACE_SIZE_API ?old"
    by (simp add: TRT_HAS_WORKSPACE_SIZE_API_def)
  moreover have "NV_TENSORRT_MAJOR ?new \<ge> 8 \<and> NV_TENSORRT_MINOR ?new \<ge> 4"
    by simp
  ultimately show ?thesis
    using SetWorkpaceSize_legacy_setter[of ?old 1073741824]
      SetWorkpaceSize_legacy_setter[of ?new 1073741824]
    by blast
qed

section \<open>Properties of the calibration data pipeline\<close>

subsection \<open>Single calls and runs of calls\<close>

lemma those_map_readable:
  "\<forall>f\<in>set fs. storage f \<noteq> None \<Longrightarrow> those (map storage fs) = Some (map (the \<circ> storage) fs)"
  by (induction fs) auto

lemma getBatch_completion:
  "mCurBatchIdx c \<ge> int (length (mFileList c)) \<Longrightarrow> getBatch storage c = Inr (None, c)"
  by (simp add: getBatch_def)

lemma getBatch_None_same:
  "getBatch storage c = Inr (None, c') \<Longrightarrow>
     c' = c \<and> mCurBatchIdx c \<ge> int (length (mFileList c))"
  by (auto simp: getBatch_def split: if_splits option.splits)

lemma getBatch_calls_exhausted:
  "mCurBatchIdx c \<ge> int (length (mFileList c)) \<Longrightarrow>
   getBatch_calls storage n c = Inr (replicate n None, c)"
  by (induction n) (simp_all add: getBatch_completion)

lemma getBatch_calls_add:
  "getBatch_calls storage (m + n) c =
     (case getBatch_calls storage m c of
        Inl e \<Rightarrow> Inl e
      | Inr (rs, c') \<Rightarrow>
          (case getBatch_calls storage n c' of
             Inl e \<Rightarrow> Inl e
           | Inr (rs', c'') \<Rightarrow> Inr (rs @ rs', c'')))"
  by (induction m arbitrary: c) (auto split: sum.splits prod.splits)

lemma getBatch_step:
  assumes "mCurBatchIdx c < int (length (mFileList c))"
    and "\<forall>f\<in>set (mFileList c). storage f \<noteq> None"
  shows "getBatch storage c =
     Inr (Some (map (the \<circ> storage)
                 (take (nat (mBatchSize c)) (drop (nat (mCurBatchIdx c)) (mFileList c)))),
          c\<lparr> mCurBatchIdx := mCurBatchIdx c + mBatchSize c,
             mDeviceBatchData := map (the \<circ> storage)
                 (take (nat (mBatchSize c)) (drop (nat (mCurBatchIdx c)) (mFileList c))) \<rparr>)"
proof -
  have "\<forall>f\<in>set (take (nat (mBatchSize c)) (drop (nat (mCurBatchIdx c)) (mFileList c))).
          storage f \<noteq> None"
    using assms(2) by (meson in_set_dropD in_set_takeD)
  then have "those (map storage
      (take (nat (mBatchSize c)) (drop (nat (mCurBatchIdx c)) (mFileList c)))) =
      Some (map (the \<circ> storage)
        (take (nat (mBatchSize c)) (drop (nat (mCurBatchIdx c)) (mFileList c))))"
    by (rule those_map_readable)
  with assms(1) show ?thesis by (simp add: getBatch_def)
qed

lemma getBatch_calls_run:
  assumes "0 < mBatchSize c" "0 \<le> mCurBatchIdx c"
    and "mCurBatchIdx c + int n * mBatchSize c < int (length (mFileList c)) + mBatchSize c"
    and "\<forall>f\<in>set (mFileList c). storage f \<noteq> None"
  shows "\<exists>c'. getBatch_calls storage n c =
       Inr (map (\<lambda>k. Some (map (the \<circ> storage)
                   (take (nat (mBatchSize c))
                      (drop (nat (mCurBatchIdx c) + k * nat (mBatchSize c)) (mFileList c)))))
              [0..<n], c') \<and>
       mCurBatchIdx c' = mCurBatchIdx c + int n * mBatchSize c \<and>
       mBatchSize c' = mBatchSize c \<and> mFileList c' = mFileList c"
  using assms
proof (induction n arbitrary: c)
  case 0
  then show ?case by simp
next
  case (Suc n)
  let ?B = "mBatchSize c"
  let ?c1 = "c\<lparr> mCurBatchIdx := mCurBatchIdx c + ?B,
             mDeviceBatchData := map (the \<circ> storage)
                 (take (nat ?B) (drop (nat (mCurBatchIdx c)) (mFileList c))) \<rparr>"
  have lt: "mCurBatchIdx c < int (length (mFileList c))"
  proof -
    have "0 \<le> int n * ?B" using Suc.prems(1) by simp
    moreover have "mCurBatchIdx c + int n * ?B < int (length (mFileList c))"
      using Suc.prems(3) by (simp add: algebra_simps)
    ultimately show ?thesis by linarith
  qed
  have step: "getBatch storage c =
     Inr (Some (map (the \<circ> storage)
                 (take (nat ?B) (drop (nat (mCurBatchIdx c)) (mFileList c)))), ?c1)"
    using lt Suc.prems(4) by (rule getBatch_step)
  have "mCurBatchIdx ?c1 + int n * mBatchSize ?c1 < int (length (mFileList ?c1)) + mBatchSize ?c1"
    using Suc.prems(3) by (simp add: algebra_simps)
  moreover have "0 < mBatchSize ?c1" "0 \<le> mCurBatchIdx ?c1"
    "\<forall>f\<in>set (mFileList ?c1). storage f \<noteq> None"
    using Suc.prems by simp_all
  ultimately obtain c' where
    run: "getBatch_calls storage n ?c1 =
       Inr (map (\<lambda>k. Some (map (the \<circ> storage)
                   (take (nat (mBatchSize ?c1))
                      (drop (nat (mCurBatchIdx ?c1) + k * nat (mBatchSize ?c1)) (mFileList ?c1)))))
              [0..<n], c')"
    and c': "mCurBatchIdx c' = mCurBatchIdx ?c1 + int n * mBatchSize ?c1"
      "mBatchSize c' = mBatchSize ?c1" "mFileList c' = mFileList ?c1"
    using Suc.IH[of ?c1] by blast
  have idx: "nat (mCurBatchIdx c + ?B) + k * nat ?B = nat (mCurBatchIdx c) + Suc k * nat ?B" for k
    using Suc.prems(1,2) by (simp add: nat_add_distrib)
  let ?f = "\<lambda>k. Some (map (the \<circ> storage)
                   (take (nat ?B) (drop (nat (mCurBatchIdx c) + k * nat ?B) (mFileList c))))"
  have run': "getBatch_calls storage n ?c1 = Inr (map (\<lambda>k. ?f (Suc k)) [0..<n], c')"
    unfolding run by (simp add: idx)
  have head: "Some (map (the \<circ> storage)
                 (take (nat ?B) (drop (nat (mCurBatchIdx c)) (mFileList c)))) = ?f 0"
    by simp
  have "getBatch_calls storage (Suc n) c = Inr (?f 0 # map (\<lambda>k. ?f (Suc k)) [0..<n], c')"
    by (simp only: getBatch_calls.simps step run' head sum.case prod.case)
  then have "getBatch_calls storage (Suc n) c = Inr (map ?f [0..<Suc n], c')"
    by (simp only: map_upt_Suc)
  moreover have "mCurBatchIdx c' = mCurBatchIdx c + int (Suc n) * ?B"
    using c'(1) by (simp add: algebra_simps)
  moreover have "mBatchSize c' = ?B" "mFileList c' = mFileList c"
    using c'(2,3) by simp_all
  ultimately show ?case by blast
qed

subsection \<open>Batch arithmetic\<close>

text \<open>
  For a batch size \<open>B > 0\<close> the number \<open>(L + B - 1) div B\<close> is the ceiling of \<open>L / B\<close>: the
  least \<open>n\<close> with \<open>L \<le> n * B\<close>.
\<close>

lemma ceil_div_bounds:
  fixes L B :: nat
  assumes "0 < B"
  shows "L \<le> ((L + B - 1) div B) * B" and "((L + B - 1) div B) * B < L + B"
proof -
  let ?n = "(L + B - 1) div B"
  have "L + B - 1 < B + ?n * B" using assms by (rule dividend_less_div_times)
  then show "L \<le> ?n * B" using assms by linarith
  have "?n * B \<le> L + B - 1" by simp
  then show "?n * B < L + B" using assms by linarith
qed

lemma last_batch_size:
  fixes L B :: nat
  assumes "0 < B" "0 < L"
  shows "min B (L - ((L + B - 1) div B - 1) * B) = (if L mod B = 0 then B else L mod B)"
proof -
  define q where "q = (L - 1) div B"
  define r where "r = (L - 1) mod B"
  have r: "r < B" using assms(1) by (simp add: r_def)
  have "L - 1 = q * B + r"
    unfolding q_def r_def by (rule div_mult_mod_eq[symmetric])
  then have L: "L = q * B + Suc r" using assms(2) by linarith
  have "L + B - 1 = (L - 1) + B" using assms(2) by simp
  then have "(L + B - 1) div B = Suc ((L - 1) div B)"
    using assms(1) by (simp only: div_add_self2)
  then have n: "(L + B - 1) div B - 1 = q" by (simp add: q_def)
  have "L mod B = Suc r mod B"
    by (simp add: L)
  moreover have "Suc r mod B = (if Suc r = B then 0 else Suc r)"
    using r by (simp add: mod_Suc)
  ultimately have "(if L mod B = 0 then B else L mod B) = Suc r"
    by auto
  moreover have "min B (L - q * B) = Suc r" using r by (simp add: L)
  ultimately show ?thesis
    by (simp only: n)
qed

lemma concat_batches:
  "concat (map (\<lambda>k. take B (drop (k * B) xs)) [0..<n]) = take (n * B) xs"
proof (induction n)
  case 0
  then show ?case by simp
next
  case (Suc n)
  have "Suc n * B = n * B + B" by simp
  then have "take (Suc n * B) xs = take (n * B) xs @ take B (drop (n * B) xs)"
    by (simp only: take_add)
  with Suc show ?case by simp
qed


subsection \<open>How many batches, and which\<close>

text \<open>
  Claim C1. For every calibration dataset of length \<open>L \<ge> 1\<close> whose files can be read and
  every batch size \<open>B > 0\<close>, a pipeline with its cursor at 0 yields exactly \<open>\<lceil>L / B\<rceil>\<close>
  successful \<open>getBatch\<close> calls before it first signals completion: the first
  \<open>n = (L + B - 1) div B\<close> calls each yield a batch and call \<open>n + 1\<close> signals completion,
  where \<open>n\<close> is the ceiling (\<open>L \<le> n * B < L + B\<close>). The \<open>k\<close>-th batch holds the samples of
  the files from position \<open>k * B\<close> on, at most \<open>B\<close> of them; the final batch has exactly
  \<open>L mod B\<close> samples, or \<open>B\<close> when \<open>B\<close> divides \<open>L\<close>; and the batches, one after the other,
  are the dataset in its original order.
\<close>

theorem getBatch_yields_ceiling_batches:
  assumes B: "0 < mBatchSize c" and idx: "mCurBatchIdx c = 0"
    and L: "mFileList c \<noteq> []"
    and rd: "\<forall>f\<in>set (mFileList c). storage f \<noteq> None"
  shows "(\<exists>c'. getBatch_calls storage
            ((length (mFileList c) + nat (mBatchSize c) - 1) div nat (mBatchSize c) + 1) c =
       Inr (map (\<lambda>k. Some (map (the \<circ> storage)
                   (take (nat (mBatchSize c)) (drop (k * nat (mBatchSize c)) (mFileList c)))))
              [0..<(length (mFileList c) + nat (mBatchSize c) - 1) div nat (mBatchSize c)] @
            [None], c')) \<and>
     length (mFileList c) \<le>
       ((length (mFileList c) + nat (mBatchSize c) - 1) div nat (mBatchSize c)) *
         nat (mBatchSize c) \<and>
     ((length (mFileList c) + nat (mBatchSize c) - 1) div nat (mBatchSize c)) *
         nat (mBatchSize c) < length (mFileList c) + nat (mBatchSize c) \<and>
     length (take (nat (mBatchSize c))
        (drop (((length (mFileList c) + nat (mBatchSize c) - 1) div nat (mBatchSize c) - 1) *
                 nat (mBatchSize c)) (mFileList c))) =
       (if length (mFileList c) mod nat (mBatchSize c) = 0 then nat (mBatchSize c)
        else length (mFileList c) mod nat (mBatchSize c)) \<and>
     concat (map (\<lambda>k. take (nat (mBatchSize c)) (drop (k * nat (mBatchSize c)) (mFileList c)))
        [0..<(length (mFileList c) + nat (mBatchSize c) - 1) div nat (mBatchSize c)]) =
       mFileList c"
proof -
  let ?L = "length (mFileList c)"
  let ?B = "nat (mBatchSize c)"
  let ?n = "(?L + ?B - 1) div ?B"
  have Bpos: "0 < ?B" using B by simp
  have Lpos: "0 < ?L" using L by simp
  have Bint: "int ?B = mBatchSize c" using B by simp
  have lo: "?L \<le> ?n * ?B" and hi: "?n * ?B < ?L + ?B"
    using Bpos by (rule ceil_div_bounds)+
  from hi have "int (?n * ?B) < int (?L + ?B)" by (simp only: of_nat_less_iff)
  then have "int ?n * int ?B < int ?L + int ?B" by (simp only: of_nat_mult of_nat_add)
  then have "int ?n * mBatchSize c < int ?L + mBatchSize c" unfolding Bint .
  then have fits: "mCurBatchIdx c + int ?n * mBatchSize c < int ?L + mBatchSize c"
    by (simp add: idx)
  have "0 \<le> mCurBatchIdx c" by (simp add: idx)
  with B fits rd obtain c1 where
    run: "getBatch_calls storage ?n c =
       Inr (map (\<lambda>k. Some (map (the \<circ> storage)
                   (take ?B (drop (nat (mCurBatchIdx c) + k * ?B) (mFileList c))))) [0..<?n], c1)"
    and c1: "mCurBatchIdx c1 = mCurBatchIdx c + int ?n * mBatchSize c"
      "mBatchSize c1 = mBatchSize c" "mFileList c1 = mFileList c"
    using getBatch_calls_run[of c ?n storage] by blast
  from lo have "int ?L \<le> int (?n * ?B)" by (simp only: of_nat_le_iff)
  then have "int ?L \<le> int ?n * int ?B" by (simp only: of_nat_mult)
  then have "int ?L \<le> int ?n * mBatchSize c" unfolding Bint .
  then have "mCurBatchIdx c1 \<ge> int (length (mFileList c1))"
    by (simp add: c1 idx)
  then have last: "getBatch_calls storage 1 c1 = Inr ([None], c1)"
    using getBatch_calls_exhausted[of c1 storage 1] by simp
  have z: "nat (mCurBatchIdx c) + k * ?B = k * ?B" for k by (simp add: idx)
  have "getBatch_calls storage (?n + 1) c =
       Inr (map (\<lambda>k. Some (map (the \<circ> storage)
                   (take ?B (drop (k * ?B) (mFileList c))))) [0..<?n] @ [None], c1)"
    by (simp only: getBatch_calls_add run last sum.case prod.case z)
  then have calls: "\<exists>c'. getBatch_calls storage (?n + 1) c =
       Inr (map (\<lambda>k. Some (map (the \<circ> storage)
                   (take ?B (drop (k * ?B) (mFileList c))))) [0..<?n] @ [None], c')"
    by blast
  have "length (take ?B (drop ((?n - 1) * ?B) (mFileList c))) = min B' (?L - (?n - 1) * ?B)"
    if "B' = ?B" for B'
    using that by (simp add: min.commute)
  then have "length (take ?B (drop ((?n - 1) * ?B) (mFileList c))) =
      min ?B (?L - (?n - 1) * ?B)"
    by blast
  also have "\<dots> = (if ?L mod ?B = 0 then ?B else ?L mod ?B)"
    using Bpos Lpos by (rule last_batch_size)
  finally have final: "length (take ?B (drop ((?n - 1) * ?B) (mFileList c))) =
      (if ?L mod ?B = 0 then ?B else ?L mod ?B)" .
  have "concat (map (\<lambda>k. take ?B (drop (k * ?B) (mFileList c))) [0..<?n]) =
      take (?n * ?B) (mFileList c)"
    by (rule concat_batches)
  also have "\<dots> = mFileList c" using lo by simp
  finally have all: "concat (map (\<lambda>k. take ?B (drop (k * ?B) (mFileList c))) [0..<?n]) =
      mFileList c" .
  from calls lo hi final all show ?thesis by blast
qed

theorem getBatch_yields_ceiling_batches_witness:
  "\<exists>c'. getBatch_calls Some 4
          (fresh_calibrator 3 [''s0'', ''s1'', ''s2'', ''s3'', ''s4'', ''s5'', ''s6'']) =
        Inr ([Some [''s0'', ''s1'', ''s2''], Some [''s3'', ''s4'', ''s5''], Some [''s6''],
              None], c')"
proof -
  let ?c = "fresh_calibrator 3 [''s0'', ''s1'', ''s2'', ''s3'', ''s4'', ''s5'', ''s6'']"
  have "0 < mBatchSize ?c" and "mCurBatchIdx ?c = 0" and "mFileList ?c \<noteq> []"
    and "\<forall>f\<in>set (mFileList ?c). Some f \<noteq> None"
    by (simp_all add: fresh_calibrator_def)
  from getBatch_yields_ceiling_batches[OF this]
  have "\<exists>c'. getBatch_calls Some
            ((length (mFileList ?c) + nat (mBatchSize ?c) - 1) div nat (mBatchSize ?c) + 1) ?c =
       Inr (map (\<lambda>k. Some (map (the \<circ> Some)
                   (take (nat (mBatchSize ?c)) (drop (k * nat (mBatchSize ?c)) (mFileList ?c)))))
              [0..<(length (mFileList ?c) + nat (mBatchSize ?c) - 1) div nat (mBatchSize ?c)] @
            [None], c')"
    by blast
  moreover have "[0..<3] = [0, Suc 0, Suc (Suc 0)]" by (simp add: eval_nat_numeral)
  ultimately show ?thesis by (simp add: fresh_calibrator_def)
qed

subsection \<open>The exhausted state\<close>

text \<open>
  Claim C4. Once \<open>getBatch\<close> has signalled completion it has left the calibrator
  unchanged, and every later call on it signals completion again: none fails and none
  yields a batch. Concretely, for a dataset of ten readable files and batch size 4, the
  calls yield batches of sizes \<open>[4, 4, 2]\<close>, the ten files in order, and every further
  call signals completion.
\<close>

theorem getBatch_exhausted_absorbing:
  "(getBatch storage c = Inr (None, c') \<longrightarrow>
      c' = c \<and> getBatch_calls storage n c' = Inr (replicate n None, c')) \<and>
   (length (mFileList d) = 10 \<and> mBatchSize d = 4 \<and> mCurBatchIdx d = 0 \<and>
    (\<forall>f\<in>set (mFileList d). storage f \<noteq> None) \<longrightarrow>
      (\<exists>rs d'. getBatch_calls storage (3 + n) d = Inr (rs, d') \<and>
         rs = [Some (map (the \<circ> storage) (take 4 (mFileList d))),
               Some (map (the \<circ> storage) (take 4 (drop 4 (mFileList d)))),
               Some (map (the \<circ> storage) (drop 8 (mFileList d)))] @
              replicate n None \<and>
         map (map_option length) rs = [Some 4, Some 4, Some 2] @ replicate n None))"
proof (intro conjI impI)
  assume a: "getBatch storage c = Inr (None, c')"
  then show "c' = c" by (simp add: getBatch_None_same)
  from a have "c' = c" "mCurBatchIdx c \<ge> int (length (mFileList c))"
    by (simp_all add: getBatch_None_same)
  then show "getBatch_calls storage n c' = Inr (replicate n None, c')"
    by (simp add: getBatch_calls_exhausted)
next
  assume h: "length (mFileList d) = 10 \<and> mBatchSize d = 4 \<and> mCurBatchIdx d = 0 \<and>
    (\<forall>f\<in>set (mFileList d). storage f \<noteq> None)"
  then have "0 < mBatchSize d" "0 \<le> mCurBatchIdx d"
    "mCurBatchIdx d + int 3 * mBatchSize d < int (length (mFileList d)) + mBatchSize d"
    "\<forall>f\<in>set (mFileList d). storage f \<noteq> None"
    by simp_all
  then obtain d1 where
    run: "getBatch_calls storage 3 d =
       Inr (map (\<lambda>k. Some (map (the \<circ> storage)
                   (take (nat (mBatchSize d))
                      (drop (nat (mCurBatchIdx d) + k * nat (mBatchSize d)) (mFileList d)))))
              [0..<3], d1)"
    and d1: "mCurBatchIdx d1 = mCurBatchIdx d + int 3 * mBatchSize d"
      "mBatchSize d1 = mBatchSize d" "mFileList d1 = mFileList d"
    using getBatch_calls_run[of d 3 storage] by blast
  have three: "[0..<3] = [0, Suc 0, Suc (Suc 0)]" by (simp add: eval_nat_numeral)
  have run3: "getBatch_calls storage 3 d =
       Inr ([Some (map (the \<circ> storage) (take 4 (mFileList d))),
             Some (map (the \<circ> storage) (take 4 (drop 4 (mFileList d)))),
             Some (map (the \<circ> storage) (drop 8 (mFileList d)))], d1)"
    unfolding run three using h by simp
  have "mCurBatchIdx d1 \<ge> int (length (mFileList d1))"
    using h by (simp add: d1)
  then have rest: "getBatch_calls storage n d1 = Inr (replicate n None, d1)"
    by (rule getBatch_calls_exhausted)
  have all: "getBatch_calls storage (3 + n) d =
       Inr ([Some (map (the \<circ> storage) (take 4 (mFileList d))),
             Some (map (the \<circ> storage) (take 4 (drop 4 (mFileList d)))),
             Some (map (the \<circ> storage) (drop 8 (mFileList d)))] @
            replicate n None, d1)"
    by (simp only: getBatch_calls_add run3 rest sum.case prod.case)
  have sizes: "length (take 4 (mFileList d)) = 4" "length (take 4 (drop 4 (mFileList d))) = 4"
    "length (drop 8 (mFileList d)) = 2"
    using h by simp_all
  show "\<exists>rs d'. getBatch_calls storage (3 + n) d = Inr (rs, d') \<and>
         rs = [Some (map (the \<circ> storage) (take 4 (mFileList d))),
               Some (map (the \<circ> storage) (take 4 (drop 4 (mFileList d)))),
               Some (map (the \<circ> storage) (drop 8 (mFileList d)))] @
              replicate n None \<and>
         map (map_option length) rs = [Some 4, Some 4, Some 2] @ replicate n None"
    using all sizes by (simp add: comp_def)
qed

theorem getBatch_exhausted_absorbing_witness:
  "getBatch_calls Some 3
     ((fresh_calibrator 4
         [''f0'', ''f1'', ''f2'', ''f3'', ''f4'', ''f5'', ''f6'', ''f7'', ''f8'', ''f9''])
        \<lparr> mCurBatchIdx := 12 \<rparr>) =
     Inr ([None, None, None],
          (fresh_calibrator 4
             [''f0'', ''f1'', ''f2'', ''f3'', ''f4'', ''f5'', ''f6'', ''f7'', ''f8'', ''f9''])
            \<lparr> mCurBatchIdx := 12 \<rparr>) \<and>
   (\<exists>rs d'. getBatch_calls Some 5
        (fresh_calibrator 4
           [''f0'', ''f1'', ''f2'', ''f3'', ''f4'', ''f5'', ''f6'', ''f7'', ''f8'', ''f9'']) =
        Inr (rs, d') \<and>
      rs = [Some [''f0'', ''f1'', ''f2'', ''f3''], Some [''f4'', ''f5'', ''f6'', ''f7''],
            Some [''f8'', ''f9''], None, None] \<and>
      map (map_option length) rs = [Some 4, Some 4, Some 2, None, None])"
proof -
  let ?d = "fresh_calibrator 4
         [''f0'', ''f1'', ''f2'', ''f3'', ''f4'', ''f5'', ''f6'', ''f7'', ''f8'', ''f9'']"
  let ?c = "?d\<lparr> mCurBatchIdx := 12 \<rparr>"
  have fin: "getBatch Some ?c = Inr (None, ?c)"
    by (simp add: getBatch_def fresh_calibrator_def)
  have ten: "length (mFileList ?d) = 10 \<and> mBatchSize ?d = 4 \<and> mCurBatchIdx ?d = 0 \<and>
    (\<forall>f\<in>set (mFileList ?d). Some f \<noteq> None)"
    by (simp add: fresh_calibrator_def)
  from getBatch_exhausted_absorbing[of Some ?c ?c 3 ?d]
    getBatch_exhausted_absorbing[of Some ?c ?c 2 ?d] fin ten
  have "getBatch_calls Some 3 ?c = Inr (replicate 3 None, ?c)"
    and "\<exists>rs d'. getBatch_calls Some (3 + 2) ?d = Inr (rs, d') \<and>
         rs = [Some (map (the \<circ> Some) (take 4 (mFileList ?d))),
               Some (map (the \<circ> Some) (take 4 (drop 4 (mFileList ?d)))),
               Some (map (the \<circ> Some) (drop 8 (mFileList ?d)))] @
              replicate 2 None \<and>
         map (map_option length) rs = [Some 4, Some 4, Some 2] @ replicate 2 None"
    by blast+
  then show ?thesis
    by (simp add: fresh_calibrator_def eval_nat_numeral)
qed

section \<open>Properties of the calibration cache\<close>

text \<open>
  Claim C3. For every state of the store, \<open>load\<close> returns none, a miss, whenever the
  store is absent, unreadable, or holds an entry whose fingerprint differs from the
  requested one. The result of \<open>load\<close> is a blob or none, so in none of these cases is an
  error raised or the mismatched blob returned.
\<close>

theorem load_miss:
  assumes "entry st = None \<or> \<not> readable st \<or>
           (\<exists>stored blob. entry st = Some (stored, blob) \<and> stored \<noteq> fp)"
  shows "load fp st = None"
  using assms by (auto simp: load_def split: option.splits)

theorem load_miss_witness:
  "load ''fp'' \<lparr> readable = True, entry = None \<rparr> = None \<and>
   load ''fp'' \<lparr> readable = False, entry = Some (''fp'', ''scales'') \<rparr> = None \<and>
   load ''fp'' \<lparr> readable = True, entry = Some (''other'', ''stale'') \<rparr> = None"
proof -
  let ?absent = "\<lparr> readable = True, entry = None :: (string \<times> bytes) option \<rparr>"
  let ?unreadable = "\<lparr> readable = False, entry = Some (''fp'', ''scales'') \<rparr>"
  let ?mismatch = "\<lparr> readable = True, entry = Some (''other'', ''stale'') \<rparr>"
  have "load ''fp'' ?absent = None"
    by (rule load_miss) simp
  moreover have "load ''fp'' ?unreadable = None"
    by (rule load_miss) simp
  moreover have "load ''fp'' ?mismatch = None"
    by (rule load_miss) simp
  ultimately show ?thesis by blast
qed

section \<open>Properties of the interface negotiation\<close>

text \<open>
  Claim C7. The calibrator answers the interface-identity query on the newest generation
  of the native contract, major version 10 and later, and only there; the answer is the
  fixed (name, version) pair, the same on every call and for every state of the
  calibrator.
\<close>

theorem getInterfaceInfo_fixed:
  "getInterfaceInfo info v c =
     (if NV_TENSORRT_MAJOR v \<ge> 10 then Some info else None) \<and>
   getInterfaceInfo info v c = getInterfaceInfo info v c'"
  by (simp add: getInterfaceInfo_def)

end
